theory Spec2Isabelle
  imports Complex_Main
begin

section \<open>Data model\<close>

text \<open>
  The program is \<^verbatim>\<open>src/MCMC/experiment.py\<close>: a command-line parser, the class
  \<^verbatim>\<open>FlowMCExperimentRunner\<close> and \<^verbatim>\<open>main\<close>. Exceptions are values of the type
  \<open>error\<close>; an exception raised inside a library the program calls (ArviZ, matplotlib)
  is \<open>LibraryError\<close> with the exception's name.
\<close>

datatype error =
    ValueError
  | IndexError
  | FileExistsError
  | FileNotFoundError
  | NotADirectoryError
  | LibraryError string

text \<open>
  A Python value whose type the parser does not fix: \<^verbatim>\<open>--rq-spline-hidden-units\<close> has
  no \<^verbatim>\<open>type=\<close>, so it is the integer default or the string the user typed; the
  keyword \<^verbatim>\<open>mala_step_size\<close> of the bundle receives whatever object the call site
  passes.
\<close>

datatype pyval = PyInt int | PyFloat real | PyStr string

text \<open>\<^verbatim>\<open>self.params = vars(args)\<close>: one field per parser argument (lines 34--136).\<close>

record params =
  experiment_type :: string
  n_dims :: int
  outdir :: string
  n_local_steps :: int
  n_global_steps :: int
  n_training_loops :: int
  mala_step_size :: real
  n_production_loops :: int
  n_epochs :: int
  n_chains :: int
  rq_spline_hidden_units :: pyval
  rq_spline_n_bins :: int
  rq_spline_n_layers :: int
  learning_rate :: real
  batch_size :: int
  n_max_examples :: int
  show_initial_positions :: bool

text \<open>
  The parser's result when only the three required arguments are given: every other
  field has the \<^verbatim>\<open>default=\<close> of its \<^verbatim>\<open>add_argument\<close> call.
\<close>

definition parse_defaults :: "string \<Rightarrow> int \<Rightarrow> string \<Rightarrow> params" where
  "parse_defaults etype ndims out =
     \<lparr> experiment_type = etype,
       n_dims = ndims,
       outdir = out,
       n_local_steps = 20,
       n_global_steps = 50,
       n_training_loops = 20,
       mala_step_size = 1 / 10,
       n_production_loops = 20,
       n_epochs = 5,
       n_chains = 20,
       rq_spline_hidden_units = PyInt 32,
       rq_spline_n_bins = 8,
       rq_spline_n_layers = 4,
       learning_rate = 1 / 1000,
       batch_size = 10000,
       n_max_examples = 10000,
       show_initial_positions = False \<rparr>"

text \<open>The three target methods of the runner; \<open>target_fn\<close> is bound to one of them.\<close>

datatype target = Target_normal | Target_dual_moon | Target_rosenbrock

definition SUPPORTED_EXPERIMENTS :: "string list" where
  "SUPPORTED_EXPERIMENTS = [''gaussian'', ''dualmoon'', ''rosenbrock'']"

text \<open>
  The runner object after \<^verbatim>\<open>__init__\<close>: its parameters and the attribute
  \<^verbatim>\<open>target_fn\<close>, which is \<open>None\<close> while no branch of the \<^verbatim>\<open>if/elif\<close> chain has
  assigned it.
\<close>

record runner =
  r_params :: params
  target_fn :: "target option"

section \<open>The target densities\<close>

text \<open>
  A position is the list of its coordinates, a JAX array of rank 1; the coordinates are
  real numbers here, and the arithmetic is that of the reals. The argument \<open>data\<close> is
  the dict the sampler passes on; no target reads it.
\<close>

type_synonym data = "(string \<times> real) list"

definition target_normal :: "real list \<Rightarrow> data \<Rightarrow> real" where
  "target_normal x data = - (1 / 2) * sum_list (map (\<lambda>xi. xi ^ 2) x)"

text \<open>\<^verbatim>\<open>jnp.linalg.norm\<close> of a vector and \<^verbatim>\<open>logsumexp\<close> of a vector.\<close>

definition linalg_norm :: "real list \<Rightarrow> real" where
  "linalg_norm x = sqrt (sum_list (map (\<lambda>xi. xi ^ 2) x))"

definition logsumexp :: "real list \<Rightarrow> real" where
  "logsumexp ts = ln (sum_list (map exp ts))"

text \<open>
  \<^verbatim>\<open>target_dual_moon\<close>, lines 192--196. \<^verbatim>\<open>x[0]\<close> and \<^verbatim>\<open>x[1]\<close> are indices fixed
  in the program text: on a position with fewer than two coordinates the index is out
  of bounds.
\<close>

definition target_dual_moon :: "real list \<Rightarrow> data \<Rightarrow> error + real" where
  "target_dual_moon x data =
     (if length x < 2 then Inl IndexError
      else
        let term1 = (1 / 2) * ((linalg_norm x - 2) / (1 / 10)) ^ 2;
            term2 = map (\<lambda>c. - (1 / 2) * ((x ! 0 + c) / (8 / 10)) ^ 2) [- 3, 3];
            term3 = map (\<lambda>c. - (1 / 2) * ((x ! 1 + c) / (6 / 10)) ^ 2) [- 3, 3]
        in Inr (- (term1 - logsumexp term2 - logsumexp term3)))"

text \<open>
  \<^verbatim>\<open>target_rosenbrock\<close>, line 199: \<^verbatim>\<open>x[:-1]\<close> is the position without its last
  coordinate, \<^verbatim>\<open>x[1:]\<close> the position without its first.
\<close>

definition target_rosenbrock :: "real list \<Rightarrow> data \<Rightarrow> real" where
  "target_rosenbrock x data =
     - sum_list (map (\<lambda>(a, b). 100 * (b - a ^ 2) ^ 2 + (1 - a) ^ 2) (zip (butlast x) (tl x)))"

text \<open>Calling the method that \<^verbatim>\<open>target_fn\<close> is bound to.\<close>

definition call_target :: "target \<Rightarrow> real list \<Rightarrow> data \<Rightarrow> error + real" where
  "call_target t x data =
     (case t of
        Target_normal \<Rightarrow> Inr (target_normal x data)
      | Target_dual_moon \<Rightarrow> target_dual_moon x data
      | Target_rosenbrock \<Rightarrow> Inr (target_rosenbrock x data))"

section \<open>The output directory\<close>

text \<open>
  The file system as the program sees it: the paths that exist, each a regular file or a
  directory. A path is identified with its string; the program builds every path it uses
  from \<^verbatim>\<open>base_dir\<close> with \<^verbatim>\<open>os.path.join\<close>. The first entry for a path counts.
\<close>

datatype kind = File | Directory

type_synonym filesystem = "(string \<times> kind) list"

definition path_exists :: "filesystem \<Rightarrow> string \<Rightarrow> bool" where
  "path_exists fs p = (p \<noteq> [] \<and> map_of fs p \<noteq> None)"

definition isdir :: "filesystem \<Rightarrow> string \<Rightarrow> bool" where
  "isdir fs p = (p \<noteq> [] \<and> map_of fs p = Some Directory)"

text \<open>\<^verbatim>\<open>os.path.join(a, b)\<close> on POSIX, for two arguments.\<close>

definition path_join :: "string \<Rightarrow> string \<Rightarrow> string" where
  "path_join a b =
     (if take 1 b = ''/'' then b
      else if a = [] \<or> last a = CHR ''/'' then a @ b
      else a @ ''/'' @ b)"

text \<open>
  The name under which the path \<open>p\<close> is listed in the directory \<open>dir\<close>, when \<open>p\<close> is
  an entry of it: \<open>p\<close> is \<open>dir\<close>, a separator, and one more component.
\<close>

definition entry_name :: "string \<Rightarrow> string \<Rightarrow> string option" where
  "entry_name dir p =
     (let pre = path_join dir [];
          rest = drop (length pre) p
      in if take (length pre) p = pre \<and> rest \<noteq> [] \<and> CHR ''/'' \<notin> set rest
         then Some rest else None)"

text \<open>\<^verbatim>\<open>os.listdir\<close>: the names of the entries of a directory.\<close>

definition listdir :: "filesystem \<Rightarrow> string \<Rightarrow> error + string list" where
  "listdir fs p =
     (if p = [] then Inl FileNotFoundError
      else case map_of fs p of
             None \<Rightarrow> Inl FileNotFoundError
           | Some File \<Rightarrow> Inl NotADirectoryError
           | Some Directory \<Rightarrow> Inr (remdups (List.map_filter (entry_name p) (map fst fs))))"

text \<open>
  \<^verbatim>\<open>os.makedirs(p)\<close> without \<^verbatim>\<open>exist_ok\<close>: it raises when the path exists and creates
  the directory otherwise. The directories above \<open>p\<close> that it would create on the way are
  not entered: the program never asks about them.
\<close>

definition makedirs :: "filesystem \<Rightarrow> string \<Rightarrow> error + filesystem" where
  "makedirs fs p =
     (if p = [] then Inl FileNotFoundError
      else if map_of fs p \<noteq> None then Inl FileExistsError
      else Inr ((p, Directory) # fs))"

text \<open>Decimal digits: \<^verbatim>\<open>\d\<close>, \<^verbatim>\<open>int(...)\<close> on a string of digits, and \<^verbatim>\<open>str\<close> of a number.\<close>

definition is_digit :: "char \<Rightarrow> bool" where
  "is_digit ch = (ch \<in> set ''0123456789'')"

definition digit_value :: "char \<Rightarrow> nat" where
  "digit_value ch =
     (if ch = CHR ''1'' then 1 else if ch = CHR ''2'' then 2 else if ch = CHR ''3'' then 3
      else if ch = CHR ''4'' then 4 else if ch = CHR ''5'' then 5 else if ch = CHR ''6'' then 6
      else if ch = CHR ''7'' then 7 else if ch = CHR ''8'' then 8 else if ch = CHR ''9'' then 9
      else 0)"

definition int_of_digits :: "string \<Rightarrow> nat" where
  "int_of_digits ds = foldl (\<lambda>acc ch. 10 * acc + digit_value ch) 0 ds"

definition digit_char :: "nat \<Rightarrow> char" where
  "digit_char k = ''0123456789'' ! k"

function str_nat :: "nat \<Rightarrow> string" where
  "str_nat k = (if k < 10 then [digit_char k] else str_nat (k div 10) @ [digit_char (k mod 10)])"
  by pat_completeness auto
termination
  by (relation "measure (\<lambda>k. k)") auto

text \<open>
  \<^verbatim>\<open>re.match(rf"{prefix}_(\d+)", name)\<close> followed by \<^verbatim>\<open>int(m.group(1))\<close>: the match is
  anchored at the start of the name only, and the group is the longest run of digits
  after the underscore. The prefix is read literally, as the pattern reads a prefix
  without regular-expression operators such as the default \<^verbatim>\<open>results\<close>.
\<close>

definition re_match_number :: "string \<Rightarrow> string \<Rightarrow> nat option" where
  "re_match_number prefix name =
     (let pat = prefix @ ''_'';
          ds = takeWhile is_digit (drop (length pat) name)
      in if take (length pat) name = pat \<and> ds \<noteq> [] then Some (int_of_digits ds) else None)"

text \<open>\<^verbatim>\<open>max(numbers, default=0)\<close>.\<close>

definition max_default0 :: "nat list \<Rightarrow> nat" where
  "max_default0 numbers = (if numbers = [] then 0 else fold max (tl numbers) (hd numbers))"

text \<open>
  \<^verbatim>\<open>get_next_available_outdir\<close>, lines 177--185. It returns the file system it leaves
  behind and the path, or the exception raised.
\<close>

definition get_next_available_outdir ::
  "filesystem \<Rightarrow> string \<Rightarrow> string \<Rightarrow> filesystem \<times> (error + string)" where
  "get_next_available_outdir fs base_dir prefix =
     (case (if \<not> path_exists fs base_dir then makedirs fs base_dir else Inr fs) of
        Inl e \<Rightarrow> (fs, Inl e)
      | Inr fs1 \<Rightarrow>
          (case listdir fs1 base_dir of
             Inl e \<Rightarrow> (fs1, Inl e)
           | Inr names \<Rightarrow>
               (let existing = filter (\<lambda>d. isdir fs1 (path_join base_dir d)) names;
                    matches = map (re_match_number prefix) existing;
                    numbers = List.map_filter (\<lambda>m. m) matches;
                    next_number = max_default0 numbers + 1
                in (fs1, Inr (path_join base_dir (prefix @ ''_'' @ str_nat next_number))))))"

text \<open>
  \<^verbatim>\<open>__init__\<close>, lines 157--175: the check of the experiment type and the choice of the
  target function.
\<close>

definition init_target :: "params \<Rightarrow> error + runner" where
  "init_target p =
     (if experiment_type p \<notin> set SUPPORTED_EXPERIMENTS then Inl ValueError
      else Inr \<lparr> r_params = p,
                 target_fn =
                   (if experiment_type p = ''gaussian'' then Some Target_normal
                    else if experiment_type p = ''dualmoon'' then Some Target_dual_moon
                    else if experiment_type p = ''rosenbrock'' then Some Target_rosenbrock
                    else None) \<rparr>)"

text \<open>
  \<^verbatim>\<open>__init__\<close>: lines 150--155 choose and create the output directory and store it in
  the parameters, then the lines above run.
\<close>

definition init :: "filesystem \<Rightarrow> params \<Rightarrow> filesystem \<times> (error + runner)" where
  "init fs args =
     (case get_next_available_outdir fs (outdir args) ''results'' of
        (fs1, Inl e) \<Rightarrow> (fs1, Inl e)
      | (fs1, Inr unique_outdir) \<Rightarrow>
          (case makedirs fs1 unique_outdir of
             Inl e \<Rightarrow> (fs1, Inl e)
           | Inr fs2 \<Rightarrow> (fs2, init_target (args\<lparr>outdir := unique_outdir\<rparr>))))"



section \<open>Running the experiment\<close>

text \<open>
  The functions of \<^verbatim>\<open>jax.random\<close> the program calls are parameters: \<open>'k\<close> is the
  type of keys, \<open>'a\<close> the type of arrays.
\<close>

record ('k, 'a) jax_random =
  PRNGKey :: "int \<Rightarrow> 'k"
  split :: "'k \<Rightarrow> 'k \<times> 'k"
  normal :: "'k \<Rightarrow> int \<times> int \<Rightarrow> 'a"

text \<open>The arguments of the call \<^verbatim>\<open>RQSpline_MALA_Bundle(...)\<close>, lines 221--239.\<close>

record 'k bundle_args =
  b_rng_key :: 'k
  b_n_chains :: int
  b_n_dims :: int
  b_logpdf :: "target option"
  b_n_local_steps :: int
  b_n_global_steps :: int
  b_n_training_loops :: int
  b_n_production_loops :: int
  b_n_epochs :: int
  b_mala_step_size :: pyval
  b_rq_spline_hidden_units :: "pyval list"
  b_rq_spline_n_bins :: int
  b_rq_spline_n_layers :: int
  b_learning_rate :: real
  b_batch_size :: int
  b_n_max_examples :: int
  b_verbose :: bool

text \<open>
  What \<^verbatim>\<open>run_experiment\<close> hands to the sampler: the arguments of \<^verbatim>\<open>Sampler(...)\<close>
  and of \<^verbatim>\<open>sampler.sample(initial_position, data)\<close>; \<open>data\<close> is the empty dict.
\<close>

record ('k, 'a) sampler_call =
  s_n_dims :: int
  s_n_chains :: int
  s_rng_key :: 'k
  s_bundle :: "'k bundle_args"
  s_initial_position :: 'a
  s_data :: "(string \<times> real) list"

definition run_experiment :: "('k, 'a) jax_random \<Rightarrow> runner \<Rightarrow> ('k, 'a) sampler_call" where
  "run_experiment jax self =
     (let p = r_params self;
          dim = n_dims p;
          rng_key0 = PRNGKey jax 42;
          (rng_key, subkey) = split jax rng_key0;
          initial_position = normal jax subkey (n_chains p, dim);
          data = [];
          bundle =
            \<lparr> b_rng_key = subkey,
              b_n_chains = n_chains p,
              b_n_dims = dim,
              b_logpdf = target_fn self,
              b_n_local_steps = n_local_steps p,
              b_n_global_steps = n_global_steps p,
              b_n_training_loops = n_training_loops p,
              b_n_production_loops = n_production_loops p,
              b_n_epochs = n_epochs p,
              b_mala_step_size = PyInt (n_epochs p),
              b_rq_spline_hidden_units = [rq_spline_hidden_units p, rq_spline_hidden_units p],
              b_rq_spline_n_bins = rq_spline_n_bins p,
              b_rq_spline_n_layers = rq_spline_n_layers p,
              b_learning_rate = learning_rate p,
              b_batch_size = batch_size p,
              b_n_max_examples = n_max_examples p,
              b_verbose = False \<rparr>
      in \<lparr> s_n_dims = dim,
           s_n_chains = n_chains p,
           s_rng_key = rng_key,
           s_bundle = bundle,
           s_initial_position = initial_position,
           s_data = data \<rparr>)"

text \<open>
  \<^verbatim>\<open>plot_corner\<close>, line 338: the arguments of the flow model's \<^verbatim>\<open>sample\<close> call.
\<close>

definition plot_corner_sample_args :: "('k, 'a) jax_random \<Rightarrow> 'k \<times> int" where
  "plot_corner_sample_args jax = (PRNGKey jax 2046, 10000)"

section \<open>Arrays and the R-hat computations\<close>

text \<open>
  A NumPy array of rank 3 or 2: its \<^verbatim>\<open>shape\<close> and its elements as nested lists. The
  shape is kept beside the elements because an axis of length 0 leaves no element to
  read the later axes from. \<open>well_shaped3\<close> says that the nested lists have the shape.
  The production positions are \<open>(chain, draw, dimension)\<close>.
\<close>

record array3 =
  shape3 :: "nat \<times> nat \<times> nat"
  elems3 :: "real list list list"

record array2 =
  shape2 :: "nat \<times> nat"
  elems2 :: "real list list"

definition well_shaped3 :: "array3 \<Rightarrow> bool" where
  "well_shaped3 a =
     (case shape3 a of (c, n, d) \<Rightarrow>
        length (elems3 a) = c \<and>
        list_all (\<lambda>ch. length ch = n \<and> list_all (\<lambda>dr. length dr = d) ch) (elems3 a))"

text \<open>
  The elements of \<^verbatim>\<open>chains[:, :k, j]\<close> for an index \<open>j\<close> inside the last axis: the
  first \<open>k\<close> draws (all of them when there are fewer) of coordinate \<open>j\<close>, chain by chain.
\<close>

definition window :: "array3 \<Rightarrow> nat \<Rightarrow> nat \<Rightarrow> array2" where
  "window a k j =
     (case shape3 a of (c, n, d) \<Rightarrow>
        \<lparr> shape2 = (c, min k n),
          elems2 = map (\<lambda>ch. map (\<lambda>dr. dr ! j) (take k ch)) (elems3 a) \<rparr>)"

text \<open>\<^verbatim>\<open>chains[:, :k, j]\<close>: NumPy raises IndexError when \<open>j\<close> is outside the last axis.\<close>

definition slice_draws :: "array3 \<Rightarrow> nat \<Rightarrow> nat \<Rightarrow> error + array2" where
  "slice_draws a k j =
     (case shape3 a of (c, n, d) \<Rightarrow>
        if j < d then Inr (window a k j) else Inl IndexError)"

text \<open>The whole \<open>(chain, draw)\<close> array of coordinate \<open>j\<close>: \<^verbatim>\<open>chains[:, :, j]\<close>.\<close>

definition coordinate :: "array3 \<Rightarrow> nat \<Rightarrow> array2" where
  "coordinate a j =
     (case shape3 a of (c, n, d) \<Rightarrow>
        \<lparr> shape2 = (c, n), elems2 = map (map (\<lambda>dr. dr ! j)) (elems3 a) \<rparr>)"

text \<open>
  A list comprehension whose body may raise: the elements are computed in order and the
  first exception ends the comprehension.
\<close>

fun map_raise :: "('a \<Rightarrow> error + 'b) \<Rightarrow> 'a list \<Rightarrow> error + 'b list" where
  "map_raise f [] = Inr []"
| "map_raise f (x # xs) =
     (case f x of
        Inl e \<Rightarrow> Inl e
      | Inr y \<Rightarrow> (case map_raise f xs of Inl e \<Rightarrow> Inl e | Inr ys \<Rightarrow> Inr (y # ys)))"

text \<open>
  \<^verbatim>\<open>az.rhat\<close> is a function of the ArviZ library, not of this program: it is the
  parameter \<open>az_rhat\<close>, from the method's name and a \<open>(chain, draw)\<close> array to the
  statistic (of a type \<open>'r\<close>) or to the exception it raises.

  \<^verbatim>\<open>plot_rhat_diagnostics\<close>, lines 389--404: the matrix \<^verbatim>\<open>rhat_s\<close>, one row for each
  \<open>j\<close> in \<^verbatim>\<open>range(n_dims)\<close>, one entry for each \<open>i\<close> in \<^verbatim>\<open>range(n_step_group)\<close>. The
  plot drawn from it afterwards is not modelled here.
\<close>

definition n_step_group :: nat where
  "n_step_group = 7"

definition plot_rhat_diagnostics ::
  "(string \<Rightarrow> array2 \<Rightarrow> error + 'r) \<Rightarrow> int \<Rightarrow> array3 \<Rightarrow> error + 'r list list" where
  "plot_rhat_diagnostics az_rhat n_dims_param chains_arr =
     (let n_steps = fst (snd (shape3 chains_arr));
          n_group_step = n_steps div n_step_group
      in map_raise
           (\<lambda>j. map_raise
                  (\<lambda>i. case slice_draws chains_arr ((i + 1) * n_group_step) j of
                          Inl e \<Rightarrow> Inl e
                        | Inr w \<Rightarrow> az_rhat ''rank'' w)
                  [0..<n_step_group])
           [0..<nat n_dims_param])"

text \<open>
  \<^verbatim>\<open>compute_rhat\<close>, lines 270--280: \<^verbatim>\<open>az.rhat\<close> on the dataset whose variable
  \<^verbatim>\<open>x\<close> is the whole positions array, with chain and draw as its first two axes. ArviZ
  applies the statistic of the chosen method to the \<open>(chain, draw)\<close> array of every
  remaining coordinate, so the result has one value for each index of the last axis.
\<close>

definition compute_rhat ::
  "(string \<Rightarrow> array2 \<Rightarrow> error + 'r) \<Rightarrow> string \<Rightarrow> array3 \<Rightarrow> error + 'r list" where
  "compute_rhat az_rhat method chains_arr =
     (case shape3 chains_arr of (c, n, d) \<Rightarrow>
        map_raise (\<lambda>j. az_rhat method (coordinate chains_arr j)) [0..<d])"

text \<open>
  A stand-in for \<^verbatim>\<open>az.rhat\<close> in concrete evaluations: it returns the array it is
  given, so that a result computed with it shows which draws each call received.
\<close>

definition echo_window :: "string \<Rightarrow> array2 \<Rightarrow> error + array2" where
  "echo_window method w = Inr w"

text \<open>
  Positions arrays for concrete evaluations: two chains of seven draws, two chains of
  eight draws (the last draw of the second chain far from the others), one chain of
  seven draws, and two chains of three draws; one coordinate each.
\<close>

definition positions_2x7 :: array3 where
  "positions_2x7 =
     \<lparr> shape3 = (2, 7, 1),
       elems3 = [[[1], [2], [3], [4], [5], [6], [7]],
                 [[2], [1], [4], [3], [6], [5], [8]]] \<rparr>"

definition positions_2x8 :: array3 where
  "positions_2x8 =
     \<lparr> shape3 = (2, 8, 1),
       elems3 = [[[1], [2], [3], [4], [5], [6], [7], [8]],
                 [[2], [1], [4], [3], [6], [5], [8], [100]]] \<rparr>"

definition positions_1x7 :: array3 where
  "positions_1x7 =
     \<lparr> shape3 = (1, 7, 1),
       elems3 = [[[1], [2], [3], [4], [5], [6], [7]]] \<rparr>"


section \<open>Postprocessing\<close>

text \<open>
  Every artifact is written by one call \<^verbatim>\<open>plt.savefig(save_name, ...)\<close> at the end of
  the code that draws it. Drawing and saving are the work of matplotlib and of the file
  system: \<open>render\<close> says, for each file name, whether producing the artifact raises
  (and what) or succeeds. The state is the list of the artifacts written so far; an
  exception leaves it as it is.
\<close>

definition savefig ::
  "(string \<Rightarrow> error option) \<Rightarrow> string \<Rightarrow> string list \<Rightarrow> string list \<times> (error + unit)" where
  "savefig render save_name written =
     (case render save_name of
        Some e \<Rightarrow> (written, Inl e)
      | None \<Rightarrow> (written @ [save_name], Inr ()))"

text \<open>
  Two statements in sequence: an exception raised by the first one propagates and the
  second one does not run. The program has no \<^verbatim>\<open>try\<close>.
\<close>

definition and_then ::
  "string list \<times> (error + 'a) \<Rightarrow> (string list \<Rightarrow> string list \<times> (error + 'b))
     \<Rightarrow> string list \<times> (error + 'b)" where
  "and_then r next_call =
     (case r of (written, Inl e) \<Rightarrow> (written, Inl e) | (written, Inr v) \<Rightarrow> next_call written)"

text \<open>\<^verbatim>\<open>plot_diagnostics\<close>, lines 304--334.\<close>

definition plot_diagnostics ::
  "(string \<Rightarrow> error option) \<Rightarrow> runner \<Rightarrow> string list \<Rightarrow> string list \<times> (error + unit)" where
  "plot_diagnostics render self written =
     savefig render (path_join (outdir (r_params self)) ''acceptance_and_logprob.pdf'') written"

text \<open>\<^verbatim>\<open>print_data\<close>, lines 357--363: it prints and writes no file.\<close>

definition print_data :: "string list \<Rightarrow> string list \<times> (error + unit)" where
  "print_data written = (written, Inr ())"

text \<open>\<^verbatim>\<open>plot_corner\<close>, lines 336--355: two figures, saved one after the other.\<close>

definition plot_corner ::
  "(string \<Rightarrow> error option) \<Rightarrow> runner \<Rightarrow> string list \<Rightarrow> string list \<times> (error + unit)" where
  "plot_corner render self written =
     and_then
       (savefig render (path_join (outdir (r_params self)) ''chains_corner_plot.pdf'') written)
       (savefig render (path_join (outdir (r_params self)) ''flow_samples_corner_plot.pdf''))"

text \<open>\<^verbatim>\<open>plot_loss_curve\<close>, lines 365--380.\<close>

definition plot_loss_curve ::
  "(string \<Rightarrow> error option) \<Rightarrow> runner \<Rightarrow> string list \<Rightarrow> string list \<times> (error + unit)" where
  "plot_loss_curve render self written =
     savefig render (path_join (outdir (r_params self)) ''training_loss_curve.pdf'') written"

text \<open>
  \<^verbatim>\<open>plot_rhat_diagnostics\<close> as a whole, lines 382--419: the matrix \<^verbatim>\<open>rhat_s\<close> is
  computed, then the figure is saved.
\<close>

definition plot_rhat_diagnostics_artifact ::
  "(string \<Rightarrow> error option) \<Rightarrow> (string \<Rightarrow> array2 \<Rightarrow> error + 'r) \<Rightarrow> runner \<Rightarrow> array3
     \<Rightarrow> string list \<Rightarrow> string list \<times> (error + unit)" where
  "plot_rhat_diagnostics_artifact render az_rhat self positions written =
     (case plot_rhat_diagnostics az_rhat (n_dims (r_params self)) positions of
        Inl e \<Rightarrow> (written, Inl e)
      | Inr rhat_s \<Rightarrow>
          savefig render (path_join (outdir (r_params self)) ''rhat_diagnostics.pdf'') written)"

text \<open>
  \<^verbatim>\<open>compute_rhat\<close> as a whole, lines 257--302: the values are computed, the table is
  saved, the values are returned.
\<close>

definition compute_rhat_artifact ::
  "(string \<Rightarrow> error option) \<Rightarrow> (string \<Rightarrow> array2 \<Rightarrow> error + 'r) \<Rightarrow> string \<Rightarrow> runner \<Rightarrow> array3
     \<Rightarrow> string list \<Rightarrow> string list \<times> (error + 'r list)" where
  "compute_rhat_artifact render az_rhat method self positions written =
     (case compute_rhat az_rhat method positions of
        Inl e \<Rightarrow> (written, Inl e)
      | Inr rhat_result \<Rightarrow>
          (case savefig render (path_join (outdir (r_params self)) ''rhat_table.pdf'') written of
             (written', Inl e) \<Rightarrow> (written', Inl e)
           | (written', Inr u) \<Rightarrow> (written', Inr rhat_result)))"

text \<open>\<^verbatim>\<open>main\<close>, lines 430--435: the calls after \<^verbatim>\<open>run_experiment\<close>.\<close>

definition main_postprocessing ::
  "(string \<Rightarrow> error option) \<Rightarrow> (string \<Rightarrow> array2 \<Rightarrow> error + 'r) \<Rightarrow> runner \<Rightarrow> array3
     \<Rightarrow> string list \<Rightarrow> string list \<times> (error + unit)" where
  "main_postprocessing render az_rhat self positions written =
     and_then (plot_diagnostics render self written) (\<lambda>w1.
     and_then (print_data w1) (\<lambda>w2.
     and_then (plot_corner render self w2) (\<lambda>w3.
     and_then (plot_loss_curve render self w3) (\<lambda>w4.
     and_then (plot_rhat_diagnostics_artifact render az_rhat self positions w4) (\<lambda>w5.
     and_then (compute_rhat_artifact render az_rhat ''rank'' self positions w5) (\<lambda>w6.
       (w6, Inr ())))))))"

text \<open>The six artifacts, in the order in which \<^verbatim>\<open>main\<close> writes them.\<close>

definition artifacts :: "string \<Rightarrow> string list" where
  "artifacts out =
     [path_join out ''acceptance_and_logprob.pdf'',
      path_join out ''chains_corner_plot.pdf'',
      path_join out ''flow_samples_corner_plot.pdf'',
      path_join out ''training_loss_curve.pdf'',
      path_join out ''rhat_diagnostics.pdf'',
      path_join out ''rhat_table.pdf'']"

text \<open>
  For concrete evaluations: an environment in which producing one artifact raises and
  every other succeeds, and a runner whose output directory is \<^verbatim>\<open>out/results_1\<close>.
\<close>

definition fails_only_at :: "string \<Rightarrow> error \<Rightarrow> string \<Rightarrow> error option" where
  "fails_only_at save_name e p = (if p = save_name then Some e else None)"

definition runner_results_1 :: runner where
  "runner_results_1 =
     \<lparr> r_params = parse_defaults ''gaussian'' 1 ''out/results_1'',
       target_fn = Some Target_normal \<rparr>"

text \<open>
  For concrete evaluations: functions in the place of \<^verbatim>\<open>jax.random\<close> whose keys are
  integers and whose arrays record the key and the shape they were drawn with.
\<close>

definition counter_jax :: "(int, int \<times> int \<times> int) jax_random" where
  "counter_jax =
     \<lparr> PRNGKey = (\<lambda>seed. seed),
       split = (\<lambda>k. (2 * k, 2 * k + 1)),
       normal = (\<lambda>k (rows, cols). (k, rows, cols)) \<rparr>"

section \<open>Theorems\<close>

text \<open>
  C3. The claim: the MALA step size passed to the sampler bundle is the user's step-size
  parameter (default 1e-1). The code passes \<^verbatim>\<open>self.params["n_epochs"]\<close> under the
  keyword \<^verbatim>\<open>mala_step_size\<close>: with the parser's defaults the bundle receives the
  integer 5, the number of epochs, and not the step size 0.1.
\<close>

theorem mala_step_size_is_n_epochs:
  "b_mala_step_size (s_bundle (run_experiment jax
       \<lparr> r_params = parse_defaults ''gaussian'' 2 ''out'', target_fn = Some Target_normal \<rparr>))
     = PyInt 5
   \<and> mala_step_size (parse_defaults ''gaussian'' 2 ''out'') = 1 / 10
   \<and> PyInt 5 \<noteq> PyFloat (mala_step_size (parse_defaults ''gaussian'' 2 ''out''))"
  by (simp add: run_experiment_def parse_defaults_def Let_def split: prod.splits)


subsection \<open>The R-hat computations\<close>

text \<open>What a comprehension returns, and where its exception comes from.\<close>

lemma map_raise_Inr_map:
  "(\<And>x. x \<in> set xs \<Longrightarrow> f x = Inr (g x)) \<Longrightarrow> map_raise f xs = Inr (map g xs)"
  by (induction xs) auto

lemma map_raise_Inr_D:
  "map_raise f xs = Inr ys \<Longrightarrow>
     length ys = length xs \<and> (\<forall>i<length xs. f (xs ! i) = Inr (ys ! i))"
proof (induction xs arbitrary: ys)
  case Nil
  then show ?case by simp
next
  case (Cons x xs)
  from Cons.prems obtain y zs where fx: "f x = Inr y" and rest: "map_raise f xs = Inr zs"
    and ys: "ys = y # zs"
    by (auto split: sum.splits)
  from Cons.IH [OF rest] have len: "length zs = length xs"
    and nth: "\<forall>i<length xs. f (xs ! i) = Inr (zs ! i)" by simp_all
  show ?case
  proof (intro conjI allI impI)
    show "length ys = length (x # xs)" using len ys by simp
  next
    fix i assume "i < length (x # xs)"
    then show "f ((x # xs) ! i) = Inr (ys ! i)"
      using fx nth ys by (cases i) auto
  qed
qed

lemma map_raise_Inl_D:
  "map_raise f xs = Inl e \<Longrightarrow> \<exists>x\<in>set xs. f x = Inl e"
  by (induction xs) (auto split: sum.splits)

lemma window_full:
  assumes "shape3 a = (c, n, d)" "well_shaped3 a" "n \<le> k"
  shows "window a k j = coordinate a j"
  using assms
  by (auto simp: window_def coordinate_def well_shaped3_def list_all_iff)



lemma plot_rhat_diagnostics_unfold:
  assumes "shape3 a = (c, n, d)"
  shows "plot_rhat_diagnostics az nd a
           = map_raise
               (\<lambda>j. map_raise
                      (\<lambda>i. case slice_draws a ((i + 1) * (n div 7)) j of
                              Inl e \<Rightarrow> Inl e
                            | Inr w \<Rightarrow> az ''rank'' w)
                      [0..<7])
               [0..<nat nd]"
  using assms by (simp add: plot_rhat_diagnostics_def n_step_group_def Let_def)

lemma trace_rows:
  assumes shape: "shape3 a = (c, n, d)" and dims: "nat nd \<le> d"
    and est: "\<And>j i. j < nat nd \<Longrightarrow> i < 7 \<Longrightarrow>
                az ''rank'' (window a ((i + 1) * (n div 7)) j) = Inr (v j i)"
  shows "plot_rhat_diagnostics az nd a = Inr (map (\<lambda>j. map (v j) [0..<7]) [0..<nat nd])"
proof -
  have row: "map_raise
               (\<lambda>i. case slice_draws a ((i + 1) * (n div 7)) j of
                       Inl e \<Rightarrow> Inl e
                     | Inr w \<Rightarrow> az ''rank'' w)
               [0..<7] = Inr (map (v j) [0..<7])" if j: "j < nat nd" for j
  proof (rule map_raise_Inr_map)
    fix i assume "i \<in> set [0..<7]"
    then have i: "i < 7" by simp
    have "j < d" using j dims by simp
    then have "slice_draws a ((i + 1) * (n div 7)) j = Inr (window a ((i + 1) * (n div 7)) j)"
      using shape by (simp add: slice_draws_def)
    then show "(case slice_draws a ((i + 1) * (n div 7)) j of
                  Inl e \<Rightarrow> Inl e | Inr w \<Rightarrow> az ''rank'' w) = Inr (v j i)"
      using est [OF j i] by simp
  qed
  have "map_raise
          (\<lambda>j. map_raise
                 (\<lambda>i. case slice_draws a ((i + 1) * (n div 7)) j of
                         Inl e \<Rightarrow> Inl e
                       | Inr w \<Rightarrow> az ''rank'' w)
                 [0..<7])
          [0..<nat nd] = Inr (map (\<lambda>j. map (v j) [0..<7]) [0..<nat nd])"
    by (rule map_raise_Inr_map, rule row) simp
  then show ?thesis
    by (simp only: plot_rhat_diagnostics_unfold [OF shape])
qed

lemma upt_7: "[0..<7] = [0, 1, 2, 3, 4, 5, 6]"
  by (simp add: upt_conv_Cons)

text \<open>
  C1, as the code has it. The number of windows is the constant 7. For a well-shaped
  positions array with \<open>n\<close> draws and at least \<open>n_dims\<close> coordinates, if \<^verbatim>\<open>az.rhat\<close>
  returns \<open>v j w\<close> on the first \<open>w * (n div 7)\<close> draws of coordinate \<open>j\<close>, for each
  window \<open>w\<close> from 1 to 7, then the trace is the matrix of these values, with one row of
  7 entries for each of the \<open>n_dims\<close> coordinates. Its last window holds the first
  \<open>7 * (n div 7)\<close> draws: when 7 divides \<open>n\<close> this is all the data, and the last
  window's value is the value \<^verbatim>\<open>compute_rhat\<close> returns for that coordinate with the
  method \<^verbatim>\<open>rank\<close>.
\<close>

theorem rhat_trace_growing_windows:
  assumes shape: "shape3 a = (c, n, d)" and wf: "well_shaped3 a" and dims: "nat nd \<le> d"
    and est: "\<And>j w. j < nat nd \<Longrightarrow> 1 \<le> w \<Longrightarrow> w \<le> 7 \<Longrightarrow>
                az ''rank'' (window a (w * (n div 7)) j) = Inr (v j w)"
  shows "plot_rhat_diagnostics az nd a
           = Inr (map (\<lambda>j. map (\<lambda>i. v j (i + 1)) [0..<7]) [0..<nat nd])
         \<and> (7 dvd n \<longrightarrow>
              (\<forall>full. compute_rhat az ''rank'' a = Inr full \<longrightarrow>
                 (\<forall>j<nat nd. full ! j = v j 7)))"
proof
  show "plot_rhat_diagnostics az nd a
          = Inr (map (\<lambda>j. map (\<lambda>i. v j (i + 1)) [0..<7]) [0..<nat nd])"
  proof (rule trace_rows [OF shape dims])
    fix j i assume "j < nat nd" and "i < (7::nat)"
    then show "az ''rank'' (window a ((i + 1) * (n div 7)) j) = Inr (v j (i + 1))"
      by (intro est) simp_all
  qed
next
  show "7 dvd n \<longrightarrow>
          (\<forall>full. compute_rhat az ''rank'' a = Inr full \<longrightarrow> (\<forall>j<nat nd. full ! j = v j 7))"
  proof (intro impI allI)
    fix full j
    assume div: "7 dvd n" and full: "compute_rhat az ''rank'' a = Inr full" and j: "j < nat nd"
    have jd: "j < d" using j dims by simp
    from full have "map_raise (\<lambda>j. az ''rank'' (coordinate a j)) [0..<d] = Inr full"
      using shape by (simp add: compute_rhat_def)
    from map_raise_Inr_D [OF this] jd
    have "az ''rank'' (coordinate a j) = Inr (full ! j)" by simp
    moreover have "7 * (n div 7) = n" using div by simp
    then have "window a (7 * (n div 7)) j = coordinate a j"
      using window_full [OF shape wf, of "7 * (n div 7)" j] by simp
    ultimately show "full ! j = v j 7"
      using est [OF j, of 7] by simp
  qed
qed

text \<open>
  The theorem at two chains of seven draws: each window \<open>w\<close> receives the first \<open>w\<close>
  draws, and the last window receives what the full-data computation receives.
\<close>

theorem rhat_trace_growing_windows_witness:
  "plot_rhat_diagnostics echo_window 1 positions_2x7
     = Inr [[window positions_2x7 1 0, window positions_2x7 2 0, window positions_2x7 3 0,
             window positions_2x7 4 0, window positions_2x7 5 0, window positions_2x7 6 0,
             window positions_2x7 7 0]]
   \<and> compute_rhat echo_window ''rank'' positions_2x7 = Inr [window positions_2x7 7 0]"
proof -
  have shape: "shape3 positions_2x7 = (2, 7, 1)"
    by (simp add: positions_2x7_def)
  have wf: "well_shaped3 positions_2x7"
    by (simp add: positions_2x7_def well_shaped3_def)
  have dims: "nat 1 \<le> (1::nat)" by simp
  have full: "compute_rhat echo_window ''rank'' positions_2x7 = Inr [coordinate positions_2x7 0]"
    by (simp add: compute_rhat_def positions_2x7_def echo_window_def)
  have "plot_rhat_diagnostics echo_window 1 positions_2x7
           = Inr (map (\<lambda>j. map (\<lambda>i. window positions_2x7 (i + 1) j) [0..<7]) [0..<nat 1])
         \<and> (7 dvd (7::nat) \<longrightarrow>
              (\<forall>full. compute_rhat echo_window ''rank'' positions_2x7 = Inr full \<longrightarrow>
                 (\<forall>j<nat 1. full ! j = window positions_2x7 7 j)))"
    by (rule rhat_trace_growing_windows [OF shape wf dims, of echo_window])
       (simp add: echo_window_def)
  then show ?thesis
    using full by (simp add: upt_7 window_def coordinate_def positions_2x7_def)
qed

text \<open>
  C1 as stated fails when 7 does not divide the number of draws. With eight draws the
  last window is computed from the first seven draws, the full-data value from all
  eight: the two calls of \<^verbatim>\<open>az.rhat\<close> receive different arrays.
\<close>

theorem rhat_trace_last_window_counterexample:
  "plot_rhat_diagnostics echo_window 1 positions_2x8
     = Inr [[window positions_2x8 1 0, window positions_2x8 2 0, window positions_2x8 3 0,
             window positions_2x8 4 0, window positions_2x8 5 0, window positions_2x8 6 0,
             window positions_2x8 7 0]]
   \<and> compute_rhat echo_window ''rank'' positions_2x8 = Inr [coordinate positions_2x8 0]
   \<and> window positions_2x8 7 0 \<noteq> coordinate positions_2x8 0"
  by (simp add: plot_rhat_diagnostics_def compute_rhat_def n_step_group_def upt_7 slice_draws_def
      window_def coordinate_def positions_2x8_def echo_window_def)

text \<open>
  C2, as the code has it. Neither computation looks at the number of chains. With fewer
  than two chains each one still calls \<^verbatim>\<open>az.rhat\<close> and returns what it returns:
  \<^verbatim>\<open>compute_rhat\<close> raises only an exception that \<^verbatim>\<open>az.rhat\<close> raised on some
  coordinate, and returns the list of its values when it returns one on every
  coordinate; the windowed trace raises only IndexError (more coordinates asked for than
  the array has) or an exception that \<^verbatim>\<open>az.rhat\<close> raised on some window, and returns
  the matrix of its values otherwise.
\<close>

theorem rhat_no_chain_check:
  assumes shape: "shape3 a = (c, n, d)" and single: "c < 2"
  shows "(compute_rhat az method a = Inl e \<longrightarrow> (\<exists>j<d. az method (coordinate a j) = Inl e))
       \<and> ((\<forall>j<d. az method (coordinate a j) = Inr (v j)) \<longrightarrow>
             compute_rhat az method a = Inr (map v [0..<d]))
       \<and> (plot_rhat_diagnostics az nd a = Inl e \<longrightarrow>
             (e = IndexError \<and> d < nat nd)
             \<or> (\<exists>j<nat nd. \<exists>w. 1 \<le> w \<and> w \<le> 7 \<and>
                   az ''rank'' (window a (w * (n div 7)) j) = Inl e))
       \<and> (nat nd \<le> d \<and>
            (\<forall>j<nat nd. \<forall>w. 1 \<le> w \<and> w \<le> 7 \<longrightarrow>
               az ''rank'' (window a (w * (n div 7)) j) = Inr (u j w)) \<longrightarrow>
             plot_rhat_diagnostics az nd a
               = Inr (map (\<lambda>j. map (\<lambda>i. u j (i + 1)) [0..<7]) [0..<nat nd]))"
proof (intro conjI impI)
  assume "compute_rhat az method a = Inl e"
  then have "map_raise (\<lambda>j. az method (coordinate a j)) [0..<d] = Inl e"
    using shape by (simp add: compute_rhat_def)
  from map_raise_Inl_D [OF this] show "\<exists>j<d. az method (coordinate a j) = Inl e"
    by auto
next
  assume "\<forall>j<d. az method (coordinate a j) = Inr (v j)"
  then have "map_raise (\<lambda>j. az method (coordinate a j)) [0..<d] = Inr (map v [0..<d])"
    by (intro map_raise_Inr_map) simp
  then show "compute_rhat az method a = Inr (map v [0..<d])"
    using shape by (simp add: compute_rhat_def)
next
  assume "plot_rhat_diagnostics az nd a = Inl e"
  then have "map_raise
           (\<lambda>j. map_raise
                  (\<lambda>i. case slice_draws a ((i + 1) * (n div 7)) j of
                          Inl e \<Rightarrow> Inl e
                        | Inr w \<Rightarrow> az ''rank'' w)
                  [0..<7])
           [0..<nat nd] = Inl e"
    by (simp only: plot_rhat_diagnostics_unfold [OF shape])
  from map_raise_Inl_D [OF this] obtain j where j: "j < nat nd"
    and "map_raise
                  (\<lambda>i. case slice_draws a ((i + 1) * (n div 7)) j of
                          Inl e \<Rightarrow> Inl e
                        | Inr w \<Rightarrow> az ''rank'' w)
                  [0..<7] = Inl e"
    by auto
  from map_raise_Inl_D [OF this(2)] obtain i where i: "i < 7"
    and call: "(case slice_draws a ((i + 1) * (n div 7)) j of
                          Inl e \<Rightarrow> Inl e
                        | Inr w \<Rightarrow> az ''rank'' w) = Inl e"
    by auto
  show "(e = IndexError \<and> d < nat nd)
             \<or> (\<exists>j<nat nd. \<exists>w. 1 \<le> w \<and> w \<le> 7 \<and>
                   az ''rank'' (window a (w * (n div 7)) j) = Inl e)"
  proof (cases "j < d")
    case True
    then have "az ''rank'' (window a ((i + 1) * (n div 7)) j) = Inl e"
      using call shape by (simp add: slice_draws_def)
    then have "1 \<le> i + 1 \<and> i + 1 \<le> 7 \<and> az ''rank'' (window a ((i + 1) * (n div 7)) j) = Inl e"
      using i by simp
    then show ?thesis using j by blast
  next
    case False
    then have "e = IndexError" using call shape by (simp add: slice_draws_def)
    then show ?thesis using False j by simp
  qed
next
  assume h: "nat nd \<le> d \<and>
            (\<forall>j<nat nd. \<forall>w. 1 \<le> w \<and> w \<le> 7 \<longrightarrow>
               az ''rank'' (window a (w * (n div 7)) j) = Inr (u j w))"
  then have dims: "nat nd \<le> d" by simp
  show "plot_rhat_diagnostics az nd a
               = Inr (map (\<lambda>j. map (\<lambda>i. u j (i + 1)) [0..<7]) [0..<nat nd])"
  proof (rule trace_rows [OF shape dims])
    fix j i assume "j < nat nd" and "i < (7::nat)"
    then have "j < nat nd \<and> 1 \<le> i + 1 \<and> i + 1 \<le> 7" by simp
    then show "az ''rank'' (window a ((i + 1) * (n div 7)) j) = Inr (u j (i + 1))"
      using h by blast
  qed
qed

text \<open>The theorem at a single chain of seven draws.\<close>

theorem rhat_no_chain_check_witness:
  "compute_rhat echo_window ''rank'' positions_1x7 = Inr [coordinate positions_1x7 0]
   \<and> plot_rhat_diagnostics echo_window 1 positions_1x7
       = Inr [[window positions_1x7 1 0, window positions_1x7 2 0, window positions_1x7 3 0,
               window positions_1x7 4 0, window positions_1x7 5 0, window positions_1x7 6 0,
               window positions_1x7 7 0]]"
proof -
  have shape: "shape3 positions_1x7 = (1, 7, 1)"
    by (simp add: positions_1x7_def)
  have single: "(1::nat) < 2" by simp
  note inst = rhat_no_chain_check [OF shape single, of echo_window "''rank''" undefined
      "\<lambda>j. coordinate positions_1x7 j" 1 "\<lambda>j w. window positions_1x7 w j"]
  have a: "compute_rhat echo_window ''rank'' positions_1x7
             = Inr (map (\<lambda>j. coordinate positions_1x7 j) [0..<1])"
    using inst by (simp add: echo_window_def)
  have b: "plot_rhat_diagnostics echo_window 1 positions_1x7
             = Inr (map (\<lambda>j. map (\<lambda>i. window positions_1x7 (i + 1) j) [0..<7]) [0..<nat 1])"
    using inst by (simp add: echo_window_def)
  show ?thesis
    using a b by (simp add: upt_7 window_def coordinate_def positions_1x7_def)
qed

text \<open>
  C2 as stated fails: on a single chain both computations hand the data to \<^verbatim>\<open>az.rhat\<close>
  and return a result, with no exception of their own.
\<close>

theorem rhat_single_chain_counterexample:
  "fst (shape3 positions_1x7) = 1
   \<and> compute_rhat echo_window ''rank'' positions_1x7 = Inr [coordinate positions_1x7 0]
   \<and> plot_rhat_diagnostics echo_window 1 positions_1x7
       = Inr [[window positions_1x7 1 0, window positions_1x7 2 0, window positions_1x7 3 0,
               window positions_1x7 4 0, window positions_1x7 5 0, window positions_1x7 6 0,
               window positions_1x7 7 0]]"
  by (simp add: plot_rhat_diagnostics_def compute_rhat_def n_step_group_def upt_7 slice_draws_def
      window_def coordinate_def positions_1x7_def echo_window_def)




subsection \<open>The output directory\<close>











lemma str_nat_digit: "k < 10 \<Longrightarrow> str_nat k = [digit_char k]"
  by (simp add: str_nat.simps)








text \<open>
  On an empty base and on a base that does not exist, the answer is \<^verbatim>\<open>out/results_1\<close>;
  the missing base is created, the returned directory is not.
\<close>

lemma get_next_available_outdir_empty_base:
  "get_next_available_outdir [(''out'', Directory)] ''out'' ''results''
     = ([(''out'', Directory)], Inr ''out/results_1'')"
  by (simp add: get_next_available_outdir_def path_exists_def listdir_def entry_name_def
      path_join_def List.map_filter_simps max_default0_def str_nat_digit digit_char_def)

lemma get_next_available_outdir_missing_base:
  "get_next_available_outdir [] ''out'' ''results''
     = ([(''out'', Directory)], Inr ''out/results_1'')"
  by (simp add: get_next_available_outdir_def path_exists_def makedirs_def listdir_def
      entry_name_def path_join_def List.map_filter_simps max_default0_def str_nat_digit
      digit_char_def)


subsection \<open>Constructing the runner\<close>

text \<open>
  C5, as the code has it. The supported names are \<^verbatim>\<open>gaussian\<close>, \<^verbatim>\<open>dualmoon\<close> and
  \<^verbatim>\<open>rosenbrock\<close>. For each of them the constructor binds \<^verbatim>\<open>target_fn\<close> to the
  log-density method of that name, which \<open>call_target\<close> calls; for every other string
  it raises ValueError.
\<close>

theorem init_target_resolves:
  "init_target p =
     (if experiment_type p = ''gaussian''
        then Inr \<lparr> r_params = p, target_fn = Some Target_normal \<rparr>
      else if experiment_type p = ''dualmoon''
        then Inr \<lparr> r_params = p, target_fn = Some Target_dual_moon \<rparr>
      else if experiment_type p = ''rosenbrock''
        then Inr \<lparr> r_params = p, target_fn = Some Target_rosenbrock \<rparr>
      else Inl ValueError)"
  by (simp add: init_target_def SUPPORTED_EXPERIMENTS_def)

text \<open>
  C5 as stated fails at the name it writes \<^verbatim>\<open>dual-moon\<close>: the program knows this
  density as \<^verbatim>\<open>dualmoon\<close>, and the string with the hyphen is rejected.
\<close>

theorem init_target_dual_moon_counterexample:
  "init_target (parse_defaults ''dual-moon'' 2 ''out'') = Inl ValueError"
  by (simp add: init_target_def SUPPORTED_EXPERIMENTS_def parse_defaults_def)

text \<open>The directory steps never raise ValueError; the dimension passes through.\<close>

lemma get_next_available_outdir_error:
  "get_next_available_outdir fs base prefix = (fs1, Inl e) \<Longrightarrow> e \<noteq> ValueError"
  by (auto simp: get_next_available_outdir_def makedirs_def listdir_def Let_def
      split: sum.splits if_splits option.splits kind.splits)

lemma makedirs_error: "makedirs fs p = Inl e \<Longrightarrow> e \<noteq> ValueError"
  by (auto simp: makedirs_def split: if_splits)

lemma init_target_n_dims:
  "init_target (a\<lparr>n_dims := k\<rparr>)
     = map_sum id (\<lambda>r. r\<lparr>r_params := (r_params r)\<lparr>n_dims := k\<rparr>\<rparr>) (init_target a)"
  by (simp add: init_target_def)

text \<open>
  C4, as the code has it. Construction fails whenever the experiment type is not in
  the supported list: with ValueError once the output directory has been chosen and
  created, and ValueError is raised in no other case. The number of dimensions is not
  checked: changing it changes neither the file system the constructor leaves nor
  whether it fails nor the exception, and a runner that is built stores the number as
  given.
\<close>

theorem init_checks_kind_only:
  "(experiment_type a \<notin> set SUPPORTED_EXPERIMENTS \<longrightarrow> (\<exists>e. snd (init fs a) = Inl e))
   \<and> (\<forall>fs1 u fs2.
         get_next_available_outdir fs (outdir a) ''results'' = (fs1, Inr u)
         \<and> makedirs fs1 u = Inr fs2
         \<and> experiment_type a \<notin> set SUPPORTED_EXPERIMENTS
         \<longrightarrow> init fs a = (fs2, Inl ValueError))
   \<and> (snd (init fs a) = Inl ValueError \<longrightarrow> experiment_type a \<notin> set SUPPORTED_EXPERIMENTS)
   \<and> fst (init fs (a\<lparr>n_dims := k\<rparr>)) = fst (init fs a)
   \<and> snd (init fs (a\<lparr>n_dims := k\<rparr>))
       = map_sum id (\<lambda>r. r\<lparr>r_params := (r_params r)\<lparr>n_dims := k\<rparr>\<rparr>) (snd (init fs a))"
proof (intro conjI impI allI)
  assume "experiment_type a \<notin> set SUPPORTED_EXPERIMENTS"
  then show "\<exists>e. snd (init fs a) = Inl e"
    by (auto simp: init_def init_target_def split: prod.splits sum.splits)
next
  fix fs1 u fs2
  assume "get_next_available_outdir fs (outdir a) ''results'' = (fs1, Inr u)
         \<and> makedirs fs1 u = Inr fs2
         \<and> experiment_type a \<notin> set SUPPORTED_EXPERIMENTS"
  then show "init fs a = (fs2, Inl ValueError)"
    by (simp add: init_def init_target_def)
next
  assume "snd (init fs a) = Inl ValueError"
  then show "experiment_type a \<notin> set SUPPORTED_EXPERIMENTS"
    by (auto simp: init_def init_target_def split: prod.splits sum.splits if_splits
        dest: get_next_available_outdir_error makedirs_error)
next
  show "fst (init fs (a\<lparr>n_dims := k\<rparr>)) = fst (init fs a)"
    by (auto simp: init_def split: prod.splits sum.splits)
next
  have upd: "a\<lparr>n_dims := k, outdir := u\<rparr> = a\<lparr>outdir := u\<rparr>\<lparr>n_dims := k\<rparr>" for u
    by simp
  show "snd (init fs (a\<lparr>n_dims := k\<rparr>))
       = map_sum id (\<lambda>r. r\<lparr>r_params := (r_params r)\<lparr>n_dims := k\<rparr>\<rparr>) (snd (init fs a))"
    by (auto simp: init_def upd init_target_n_dims simp del: params.update_convs
        split: prod.splits sum.splits)
qed

text \<open>
  The theorem at an unsupported experiment type, on an empty file system: the
  directories are created and ValueError is raised.
\<close>

theorem init_checks_kind_only_witness:
  "init [] (parse_defaults ''mixture'' 2 ''out'')
     = ([(''out/results_1'', Directory), (''out'', Directory)], Inl ValueError)"
proof -
  have dir: "get_next_available_outdir [] (outdir (parse_defaults ''mixture'' 2 ''out'')) ''results''
               = ([(''out'', Directory)], Inr ''out/results_1'')"
    using get_next_available_outdir_missing_base by (simp add: parse_defaults_def)
  have mk: "makedirs [(''out'', Directory)] ''out/results_1''
              = Inr [(''out/results_1'', Directory), (''out'', Directory)]"
    by (simp add: makedirs_def)
  have kind: "experiment_type (parse_defaults ''mixture'' 2 ''out'') \<notin> set SUPPORTED_EXPERIMENTS"
    by (simp add: parse_defaults_def SUPPORTED_EXPERIMENTS_def)
  from init_checks_kind_only [of "parse_defaults ''mixture'' 2 ''out''" "[]" 2] dir mk kind
  show ?thesis by blast
qed

text \<open>
  C4 as stated fails for the dimension: with \<^verbatim>\<open>--n-dims 0\<close> and a supported
  experiment type the constructor returns a runner.
\<close>

theorem init_dimension_counterexample:
  "n_dims (parse_defaults ''gaussian'' 0 ''out'') < 1
   \<and> init [] (parse_defaults ''gaussian'' 0 ''out'')
       = ([(''out/results_1'', Directory), (''out'', Directory)],
          Inr \<lparr> r_params = parse_defaults ''gaussian'' 0 ''out/results_1'',
                target_fn = Some Target_normal \<rparr>)"
  using get_next_available_outdir_missing_base
  by (simp add: init_def init_target_def makedirs_def parse_defaults_def SUPPORTED_EXPERIMENTS_def)


subsection \<open>Postprocessing\<close>

lemma savefig_None: "render p = None \<Longrightarrow> savefig render p w = (w @ [p], Inr ())"
  by (simp add: savefig_def)

lemma savefig_Some: "render p = Some e \<Longrightarrow> savefig render p w = (w, Inl e)"
  by (simp add: savefig_def)

lemma and_then_Inr: "and_then (w, Inr v) f = f w"
  by (simp add: and_then_def)

lemma and_then_Inl: "and_then (w, Inl e) f = (w, Inl e)"
  by (simp add: and_then_def)

lemma six_saves:
  assumes trace: "plot_rhat_diagnostics az (n_dims (r_params self)) positions = Inr rhat_s"
    and full: "compute_rhat az ''rank'' positions = Inr rhat_result"
    and names: "artifacts (outdir (r_params self)) = [a1, a2, a3, a4, a5, a6]"
  shows "main_postprocessing render az self positions written =
           (written @ takeWhile (\<lambda>p. render p = None) [a1, a2, a3, a4, a5, a6],
            (case List.find (\<lambda>p. render p \<noteq> None) [a1, a2, a3, a4, a5, a6] of
               None \<Rightarrow> Inr ()
             | Some p \<Rightarrow> (case render p of Some e \<Rightarrow> Inl e | None \<Rightarrow> Inr ())))"
proof -
  from names have n: "path_join (outdir (r_params self)) ''acceptance_and_logprob.pdf'' = a1"
    "path_join (outdir (r_params self)) ''chains_corner_plot.pdf'' = a2"
    "path_join (outdir (r_params self)) ''flow_samples_corner_plot.pdf'' = a3"
    "path_join (outdir (r_params self)) ''training_loss_curve.pdf'' = a4"
    "path_join (outdir (r_params self)) ''rhat_diagnostics.pdf'' = a5"
    "path_join (outdir (r_params self)) ''rhat_table.pdf'' = a6"
    by (simp_all only: artifacts_def list.inject)
  have unfold: "main_postprocessing render az self positions written =
     and_then (savefig render a1 written) (\<lambda>w1.
     and_then (w1, Inr ()) (\<lambda>w2.
     and_then (and_then (savefig render a2 w2) (savefig render a3)) (\<lambda>w3.
     and_then (savefig render a4 w3) (\<lambda>w4.
     and_then (savefig render a5 w4) (\<lambda>w5.
     and_then (case savefig render a6 w5 of
                 (w', Inl e) \<Rightarrow> (w', Inl e)
               | (w', Inr u) \<Rightarrow> (w', Inr rhat_result)) (\<lambda>w6.
       (w6, Inr ())))))))"
    unfolding main_postprocessing_def plot_diagnostics_def print_data_def
      plot_corner_def plot_loss_curve_def plot_rhat_diagnostics_artifact_def
      compute_rhat_artifact_def n trace full
    by simp
  show ?thesis
  proof (cases "render a1")
    case (Some e)
    then show ?thesis unfolding unfold by (simp add: savefig_Some and_then_Inl)
  next
    case r1: None
    show ?thesis
    proof (cases "render a2")
      case (Some e)
      then show ?thesis unfolding unfold using r1
        by (simp add: savefig_Some savefig_None and_then_Inl and_then_Inr)
    next
      case r2: None
      show ?thesis
      proof (cases "render a3")
        case (Some e)
        then show ?thesis unfolding unfold using r1 r2
          by (simp add: savefig_Some savefig_None and_then_Inl and_then_Inr)
      next
        case r3: None
        show ?thesis
        proof (cases "render a4")
          case (Some e)
          then show ?thesis unfolding unfold using r1 r2 r3
            by (simp add: savefig_Some savefig_None and_then_Inl and_then_Inr)
        next
          case r4: None
          show ?thesis
          proof (cases "render a5")
            case (Some e)
            then show ?thesis unfolding unfold using r1 r2 r3 r4
              by (simp add: savefig_Some savefig_None and_then_Inl and_then_Inr)
          next
            case r5: None
            show ?thesis
            proof (cases "render a6")
              case (Some e)
              then show ?thesis unfolding unfold using r1 r2 r3 r4 r5
                by (simp add: savefig_Some savefig_None and_then_Inl and_then_Inr)
            next
              case r6: None
              then show ?thesis unfolding unfold using r1 r2 r3 r4 r5
                by (simp add: savefig_None and_then_Inr)
            qed
          qed
        qed
      qed
    qed
  qed
qed

text \<open>
  C9, as the code has it. When the R-hat computations return, \<^verbatim>\<open>main\<close> writes the
  artifacts in order up to the first one whose production raises, and stops there with
  that exception: the artifacts before it are written and stay, the one that failed and
  all the later ones are not produced. When none raises, all six are written.
\<close>

theorem main_stops_at_first_failure:
  assumes trace: "plot_rhat_diagnostics az (n_dims (r_params self)) positions = Inr rhat_s"
    and full: "compute_rhat az ''rank'' positions = Inr rhat_result"
  shows "main_postprocessing render az self positions written =
           (written @ takeWhile (\<lambda>p. render p = None) (artifacts (outdir (r_params self))),
            (case List.find (\<lambda>p. render p \<noteq> None) (artifacts (outdir (r_params self))) of
               None \<Rightarrow> Inr ()
             | Some p \<Rightarrow> (case render p of Some e \<Rightarrow> Inl e | None \<Rightarrow> Inr ())))"
proof -
  obtain a1 a2 a3 a4 a5 a6 where
    names: "artifacts (outdir (r_params self)) = [a1, a2, a3, a4, a5, a6]"
    by (simp add: artifacts_def)
  show ?thesis
    unfolding names by (rule six_saves [OF trace full names])
qed

lemma positions_2x7_trace:
  "\<exists>rhat_s. plot_rhat_diagnostics echo_window (n_dims (r_params runner_results_1)) positions_2x7
     = Inr rhat_s"
  by (simp add: plot_rhat_diagnostics_def n_step_group_def upt_7 slice_draws_def
      positions_2x7_def echo_window_def runner_results_1_def parse_defaults_def)

lemma positions_2x7_full:
  "\<exists>rhat_result. compute_rhat echo_window ''rank'' positions_2x7 = Inr rhat_result"
  by (simp add: compute_rhat_def positions_2x7_def echo_window_def)

lemma artifacts_results_1:
  "artifacts (outdir (r_params runner_results_1))
     = [''out/results_1/acceptance_and_logprob.pdf'',
        ''out/results_1/chains_corner_plot.pdf'',
        ''out/results_1/flow_samples_corner_plot.pdf'',
        ''out/results_1/training_loss_curve.pdf'',
        ''out/results_1/rhat_diagnostics.pdf'',
        ''out/results_1/rhat_table.pdf'']"
  by (simp add: artifacts_def runner_results_1_def parse_defaults_def path_join_def)

text \<open>
  The theorem when only the first corner plot cannot be produced: one artifact is
  written and the run ends with the exception.
\<close>

theorem main_stops_at_first_failure_witness:
  "main_postprocessing
      (fails_only_at ''out/results_1/chains_corner_plot.pdf'' (LibraryError ''OSError''))
      echo_window runner_results_1 positions_2x7 []
     = ([''out/results_1/acceptance_and_logprob.pdf''], Inl (LibraryError ''OSError''))"
proof -
  from positions_2x7_trace obtain rhat_s where
    trace: "plot_rhat_diagnostics echo_window (n_dims (r_params runner_results_1)) positions_2x7
              = Inr rhat_s" by blast
  from positions_2x7_full obtain rhat_result where
    full: "compute_rhat echo_window ''rank'' positions_2x7 = Inr rhat_result" by blast
  show ?thesis
    unfolding main_stops_at_first_failure [OF trace full] artifacts_results_1
    by (simp add: fails_only_at_def)
qed

text \<open>
  C9 as stated fails: in that run the training-loss curve could be produced, and it is
  not, because the run has ended.
\<close>

theorem main_aborts_counterexample:
  "fails_only_at ''out/results_1/chains_corner_plot.pdf'' (LibraryError ''OSError'')
      ''out/results_1/training_loss_curve.pdf'' = None
   \<and> ''out/results_1/training_loss_curve.pdf''
       \<notin> set (fst (main_postprocessing
             (fails_only_at ''out/results_1/chains_corner_plot.pdf'' (LibraryError ''OSError''))
             echo_window runner_results_1 positions_2x7 []))
   \<and> snd (main_postprocessing
             (fails_only_at ''out/results_1/chains_corner_plot.pdf'' (LibraryError ''OSError''))
             echo_window runner_results_1 positions_2x7 [])
       = Inl (LibraryError ''OSError'')"
proof -
  from positions_2x7_trace obtain rhat_s where
    trace: "plot_rhat_diagnostics echo_window (n_dims (r_params runner_results_1)) positions_2x7
              = Inr rhat_s" by blast
  from positions_2x7_full obtain rhat_result where
    full: "compute_rhat echo_window ''rank'' positions_2x7 = Inr rhat_result" by blast
  show ?thesis
    unfolding six_saves [OF trace full artifacts_results_1]
    by (simp add: fails_only_at_def)
qed


subsection \<open>The dual-moon density\<close>

text \<open>
  C8. On positions with at least two coordinates the dual-moon log-density returns a
  value, and it depends on the position only through the first two coordinates and the
  norm: two positions that agree on \<open>x[0]\<close>, \<open>x[1]\<close> and \<open>\<parallel>x\<parallel>\<close> have the same
  log-density, whatever their other coordinates, their lengths and the \<open>data\<close>.
\<close>

theorem target_dual_moon_depends_on:
  assumes "2 \<le> length x" and "2 \<le> length y"
    and "x ! 0 = y ! 0" and "x ! 1 = y ! 1" and "linalg_norm x = linalg_norm y"
  shows "target_dual_moon x data = target_dual_moon y data'
         \<and> (\<exists>v. target_dual_moon x data = Inr v)"
  using assms by (simp add: target_dual_moon_def Let_def)

text \<open>
  The theorem at \<open>(1, 2, 3)\<close> and \<open>(1, 2, -3, 0)\<close>, two positions of norm \<open>\<surd>14\<close>.
\<close>

theorem target_dual_moon_depends_on_witness:
  "target_dual_moon [1, 2, 3] [] = target_dual_moon [1, 2, - 3, 0] []
   \<and> (\<exists>v. target_dual_moon [1, 2, 3] [] = Inr v)"
proof -
  have len: "2 \<le> length [1, 2, 3 :: real]" "2 \<le> length [1, 2, - 3, 0 :: real]"
    by simp_all
  have c0: "[1, 2, 3 :: real] ! 0 = [1, 2, - 3, 0] ! 0" by simp
  have c1: "[1, 2, 3 :: real] ! 1 = [1, 2, - 3, 0] ! 1" by simp
  have nrm: "linalg_norm [1, 2, 3] = linalg_norm [1, 2, - 3, 0]"
    by (simp add: linalg_norm_def)
  show ?thesis
    by (rule target_dual_moon_depends_on [OF len c0 c1 nrm])
qed

subsection \<open>Reproducibility\<close>

text \<open>
  The runner that the constructor returns holds the arguments, with another output
  directory; \<^verbatim>\<open>run_experiment\<close> does not read the output directory.
\<close>

lemma init_runner:
  assumes "snd (init fs a) = Inr r"
  shows "\<exists>u. r_params r = a\<lparr>outdir := u\<rparr>
           \<and> target_fn r = (if experiment_type a = ''gaussian'' then Some Target_normal
                             else if experiment_type a = ''dualmoon'' then Some Target_dual_moon
                             else Some Target_rosenbrock)"
  using assms
  by (auto simp: init_def init_target_def SUPPORTED_EXPERIMENTS_def
      split: prod.splits sum.splits if_splits)

lemma run_experiment_outdir:
  "run_experiment jax \<lparr> r_params = a\<lparr>outdir := u\<rparr>, target_fn = t \<rparr>
     = run_experiment jax \<lparr> r_params = a, target_fn = t \<rparr>"
  by (simp add: run_experiment_def Let_def split: prod.splits)

text \<open>
  C10. Two invocations with the same arguments, in whatever state they find the file
  system (the second finds the directory the first created and gets another output
  directory), make the same calls to the sampler: the same initial ensemble, the same
  keys, the same bundle arguments and the same data. The run's keys are the two halves
  of the split of \<^verbatim>\<open>PRNGKey(42)\<close>, the initial ensemble is drawn with the second half
  and the shape \<open>(n_chains, n_dims)\<close>, and the flow model is sampled with
  \<^verbatim>\<open>PRNGKey(2046)\<close> and the count 10000.
\<close>

theorem run_experiment_reproducible:
  assumes first: "snd (init fs1 a) = Inr r1" and second: "snd (init fs2 a) = Inr r2"
  shows "run_experiment jax r1 = run_experiment jax r2
         \<and> s_rng_key (run_experiment jax r1) = fst (split jax (PRNGKey jax 42))
         \<and> b_rng_key (s_bundle (run_experiment jax r1)) = snd (split jax (PRNGKey jax 42))
         \<and> s_initial_position (run_experiment jax r1)
             = normal jax (snd (split jax (PRNGKey jax 42))) (n_chains a, n_dims a)
         \<and> s_data (run_experiment jax r1) = []
         \<and> plot_corner_sample_args jax = (PRNGKey jax 2046, 10000)"
proof -
  from init_runner [OF first] obtain u1 where
    r1: "r1 = \<lparr> r_params = a\<lparr>outdir := u1\<rparr>, target_fn = target_fn r1 \<rparr>"
    and t1: "target_fn r1 = (if experiment_type a = ''gaussian'' then Some Target_normal
                             else if experiment_type a = ''dualmoon'' then Some Target_dual_moon
                             else Some Target_rosenbrock)"
    by (cases r1) auto
  from init_runner [OF second] obtain u2 where
    r2: "r2 = \<lparr> r_params = a\<lparr>outdir := u2\<rparr>, target_fn = target_fn r2 \<rparr>"
    and t2: "target_fn r2 = (if experiment_type a = ''gaussian'' then Some Target_normal
                             else if experiment_type a = ''dualmoon'' then Some Target_dual_moon
                             else Some Target_rosenbrock)"
    by (cases r2) auto
  have same: "run_experiment jax r1 = run_experiment jax r2"
    by (subst r1, subst r2) (simp only: run_experiment_outdir t1 t2)
  have run1: "run_experiment jax r1
                = run_experiment jax \<lparr> r_params = a, target_fn = target_fn r1 \<rparr>"
    by (subst r1) (simp only: run_experiment_outdir)
  show ?thesis
    unfolding run1 using same run1
    by (simp add: run_experiment_def plot_corner_sample_args_def Let_def split: prod.splits)
qed

lemma init_first_run:
  "snd (init [] (parse_defaults ''gaussian'' 2 ''out''))
     = Inr \<lparr> r_params = parse_defaults ''gaussian'' 2 ''out/results_1'',
             target_fn = Some Target_normal \<rparr>"
  using get_next_available_outdir_missing_base
  by (simp add: init_def init_target_def makedirs_def parse_defaults_def SUPPORTED_EXPERIMENTS_def)

lemma next_after_first_run:
  "get_next_available_outdir [(''out/results_1'', Directory), (''out'', Directory)] ''out'' ''results''
     = ([(''out/results_1'', Directory), (''out'', Directory)], Inr ''out/results_2'')"
  by (simp add: get_next_available_outdir_def path_exists_def listdir_def entry_name_def isdir_def
      path_join_def List.map_filter_simps max_default0_def str_nat_digit digit_char_def
      re_match_number_def is_digit_def int_of_digits_def digit_value_def)

lemma init_second_run:
  "snd (init [(''out/results_1'', Directory), (''out'', Directory)]
          (parse_defaults ''gaussian'' 2 ''out''))
     = Inr \<lparr> r_params = parse_defaults ''gaussian'' 2 ''out/results_2'',
             target_fn = Some Target_normal \<rparr>"
  using next_after_first_run
  by (simp add: init_def init_target_def makedirs_def parse_defaults_def SUPPORTED_EXPERIMENTS_def)

text \<open>
  The theorem at a first run on an empty file system and a second run after it: the
  output directories are \<^verbatim>\<open>out/results_1\<close> and \<^verbatim>\<open>out/results_2\<close>, the sampler calls
  are equal.
\<close>

theorem run_experiment_reproducible_witness:
  "run_experiment counter_jax
      \<lparr> r_params = parse_defaults ''gaussian'' 2 ''out/results_1'',
        target_fn = Some Target_normal \<rparr>
     = run_experiment counter_jax
         \<lparr> r_params = parse_defaults ''gaussian'' 2 ''out/results_2'',
           target_fn = Some Target_normal \<rparr>
   \<and> s_rng_key (run_experiment counter_jax
         \<lparr> r_params = parse_defaults ''gaussian'' 2 ''out/results_1'',
           target_fn = Some Target_normal \<rparr>) = 84
   \<and> s_initial_position (run_experiment counter_jax
         \<lparr> r_params = parse_defaults ''gaussian'' 2 ''out/results_1'',
           target_fn = Some Target_normal \<rparr>) = (85, 20, 2)
   \<and> plot_corner_sample_args counter_jax = (2046, 10000)"
proof -
  note inst = run_experiment_reproducible [OF init_first_run init_second_run, of counter_jax]
  have k: "fst (split counter_jax (PRNGKey counter_jax 42)) = 84"
    by (simp add: counter_jax_def)
  have p: "normal counter_jax (snd (split counter_jax (PRNGKey counter_jax 42)))
             (n_chains (parse_defaults ''gaussian'' 2 ''out''),
              n_dims (parse_defaults ''gaussian'' 2 ''out'')) = (85, 20, 2)"
    by (simp add: counter_jax_def parse_defaults_def)
  have s: "(PRNGKey counter_jax 2046, 10000 :: int) = (2046, 10000)"
    by (simp add: counter_jax_def)
  from inst show ?thesis
    unfolding k p s by blast
qed

end
